theory Spec2Isabelle
  imports Complex_Main "HOL-Library.AList" "HOL-Library.Sublist"
begin

section \<open>Python values and dictionaries\<close>

text \<open>
  The dashboard is Python. Its numbers are unbounded integers (\<open>int\<close>) and floats; the
  floats that matter here are only compared, subtracted and divided, so they are modelled
  as \<open>real\<close>. A Python \<open>dict\<close> keeps its keys in insertion order and holds each key
  once: it is an association list with distinct keys, \<open>d[k] = v\<close> is \<open>AList.update\<close>
  (in place for a key that is there, at the end for a new one), \<open>del d[k]\<close> is
  \<open>AList.delete\<close> and \<open>d.get(k)\<close> is \<open>map_of\<close>.
\<close>

datatype pyval = PInt int | PFloat real | PBool bool | PStr string

type_synonym ('k, 'v) dict = "('k \<times> 'v) list"

definition dict_keys :: "('k, 'v) dict \<Rightarrow> 'k list" where
  "dict_keys d = map fst d"

text \<open>\<open>d.update(other)\<close>: every item of \<open>other\<close> is stored in \<open>d\<close>, in order.\<close>

definition dict_update_all :: "('k, 'v) dict \<Rightarrow> ('k, 'v) dict \<Rightarrow> ('k, 'v) dict" where
  "dict_update_all other d = fold (\<lambda>(k, v). AList.update k v) other d"

section \<open>Adaptive performance modes (core/performance_modes.py)\<close>

datatype PerformanceMode = HIGH | BALANCED | LOW | CUSTOM

text \<open>
  \<open>system_info\<close> is the dictionary \<open>_detect_system_specs\<close> returns; \<open>memory_gb\<close> is a
  float rounded to one decimal, \<open>cpu_count\<close> the number of cores.
\<close>

record system_info =
  memory_gb :: real
  cpu_count :: int
  cpu_freq_mhz :: real
  disk_gb :: real
  is_ssd :: bool
  platform :: string
  architecture :: string

record PerformanceModeManager =
  current_mode :: PerformanceMode
  custom_settings :: "(string, pyval) dict option"
  system_info :: system_info

definition auto_detect_mode :: "system_info \<Rightarrow> PerformanceMode" where
  "auto_detect_mode si =
     (if memory_gb si \<ge> 16 \<and> cpu_count si \<ge> 8 then HIGH
      else if memory_gb si < 8 \<or> cpu_count si < 4 then LOW
      else BALANCED)"

text \<open>
  \<open>get_mode_settings(mode=None)\<close>: no mode means the current one; CUSTOM returns the stored
  table when there is one (a dictionary that is not empty); HIGH and BALANCED return their
  literal tables, and everything else (LOW, and CUSTOM with nothing stored) the LOW table.
\<close>

definition high_settings :: "(string, pyval) dict" where
  "high_settings =
    [(''ros2_update_interval'', PInt 1000),
     (''metrics_update_interval'', PInt 250),
     (''history_update_interval'', PInt 5000),
     (''chart_update_interval'', PInt 500),
     (''max_threads'', PInt 6),
     (''max_concurrent_threads'', PInt 4),
     (''cache_timeout'', PInt 1),
     (''system_metrics_cache'', PFloat (1 / 2)),
     (''topic_check_interval'', PInt 1),
     (''chart_buffer_size'', PInt 120),
     (''chart_auto_pause'', PBool False),
     (''history_max_entries'', PInt 1000),
     (''enable_profiler'', PBool True),
     (''enable_advanced_features'', PBool True),
     (''lazy_load_widgets'', PBool False),
     (''process_priority'', PStr ''normal'')]"

definition balanced_settings :: "(string, pyval) dict" where
  "balanced_settings =
    [(''ros2_update_interval'', PInt 3000),
     (''metrics_update_interval'', PInt 500),
     (''history_update_interval'', PInt 15000),
     (''chart_update_interval'', PInt 1000),
     (''max_threads'', PInt 3),
     (''max_concurrent_threads'', PInt 2),
     (''cache_timeout'', PInt 3),
     (''system_metrics_cache'', PInt 1),
     (''topic_check_interval'', PInt 3),
     (''chart_buffer_size'', PInt 60),
     (''chart_auto_pause'', PBool True),
     (''history_max_entries'', PInt 500),
     (''enable_profiler'', PBool True),
     (''enable_advanced_features'', PBool True),
     (''lazy_load_widgets'', PBool True),
     (''process_priority'', PStr ''normal'')]"

definition low_settings :: "(string, pyval) dict" where
  "low_settings =
    [(''ros2_update_interval'', PInt 5000),
     (''metrics_update_interval'', PInt 1000),
     (''history_update_interval'', PInt 30000),
     (''chart_update_interval'', PInt 2000),
     (''max_threads'', PInt 2),
     (''max_concurrent_threads'', PInt 1),
     (''cache_timeout'', PInt 5),
     (''system_metrics_cache'', PInt 2),
     (''topic_check_interval'', PInt 5),
     (''chart_buffer_size'', PInt 30),
     (''chart_auto_pause'', PBool True),
     (''history_max_entries'', PInt 200),
     (''enable_profiler'', PBool False),
     (''enable_advanced_features'', PBool True),
     (''lazy_load_widgets'', PBool True),
     (''process_priority'', PStr ''below_normal'')]"

definition dict_truthy :: "('k, 'v) dict option \<Rightarrow> bool" where
  "dict_truthy d = (case d of None \<Rightarrow> False | Some kvs \<Rightarrow> kvs \<noteq> [])"

definition get_mode_settings ::
  "PerformanceModeManager \<Rightarrow> PerformanceMode option \<Rightarrow> (string, pyval) dict" where
  "get_mode_settings mgr mode_arg =
     (let mode = (case mode_arg of None \<Rightarrow> current_mode mgr | Some m \<Rightarrow> m) in
      if mode = CUSTOM \<and> dict_truthy (custom_settings mgr)
      then (case custom_settings mgr of Some kvs \<Rightarrow> kvs | None \<Rightarrow> [])
      else if mode = HIGH then high_settings
      else if mode = BALANCED then balanced_settings
      else low_settings)"

text \<open>
  The settings table as the specification prints it (section 4.2): one row per key, with
  the HIGH, BALANCED and LOW columns. \<open>spec_mode_settings\<close> reads one column of it.
\<close>

definition spec_settings_table :: "(string \<times> pyval \<times> pyval \<times> pyval) list" where
  "spec_settings_table =
    [(''ros2_update_interval'', PInt 1000, PInt 3000, PInt 5000),
     (''metrics_update_interval'', PInt 250, PInt 500, PInt 1000),
     (''history_update_interval'', PInt 5000, PInt 15000, PInt 30000),
     (''chart_update_interval'', PInt 500, PInt 1000, PInt 2000),
     (''max_threads'', PInt 6, PInt 3, PInt 2),
     (''max_concurrent_threads'', PInt 4, PInt 2, PInt 1),
     (''cache_timeout'', PInt 1, PInt 3, PInt 5),
     (''system_metrics_cache'', PFloat (1 / 2), PInt 1, PInt 2),
     (''topic_check_interval'', PInt 1, PInt 3, PInt 5),
     (''chart_buffer_size'', PInt 120, PInt 60, PInt 30),
     (''chart_auto_pause'', PBool False, PBool True, PBool True),
     (''history_max_entries'', PInt 1000, PInt 500, PInt 200),
     (''enable_profiler'', PBool True, PBool True, PBool False),
     (''enable_advanced_features'', PBool True, PBool True, PBool True),
     (''lazy_load_widgets'', PBool False, PBool True, PBool True),
     (''process_priority'', PStr ''normal'', PStr ''normal'', PStr ''below_normal'')]"

fun spec_column :: "PerformanceMode \<Rightarrow> (string \<times> pyval \<times> pyval \<times> pyval) \<Rightarrow> string \<times> pyval" where
  "spec_column HIGH (k, h, b, l) = (k, h)"
| "spec_column BALANCED (k, h, b, l) = (k, b)"
| "spec_column m (k, h, b, l) = (k, l)"

definition spec_mode_settings :: "PerformanceMode \<Rightarrow> (string, pyval) dict" where
  "spec_mode_settings m = map (spec_column m) spec_settings_table"

section \<open>Smart recording triggers (core/recording_triggers.py)\<close>

text \<open>
  A \<open>MessageRateTrigger\<close> has the fields of \<open>RecordingTrigger\<close> and a threshold. The two
  Qt signals carry a reason text formatted from the rate and the threshold; the model
  keeps the numbers the text is formatted from.
\<close>

record MessageRateTrigger =
  name :: string
  enabled :: bool
  activated :: bool
  threshold :: real

datatype trigger_signal = trigger_activated real real | trigger_deactivated real

definition MessageRateTrigger_init :: "real \<Rightarrow> MessageRateTrigger" where
  "MessageRateTrigger_init threshold_msg_per_sec =
     \<lparr>name = ''Message Rate'', enabled = True, activated = False,
      threshold = threshold_msg_per_sec\<rparr>"

text \<open>
  \<open>check(ros2_manager, metrics)\<close> returns its boolean and the trigger after the call,
  together with the signals it emitted.
\<close>

definition MessageRateTrigger_check ::
  "MessageRateTrigger \<Rightarrow> (string, real) dict \<Rightarrow> bool \<times> trigger_signal list \<times> MessageRateTrigger" where
  "MessageRateTrigger_check tr metrics =
     (if \<not> enabled tr then (False, [], tr)
      else
        let current_rate = (case map_of metrics ''message_rate'' of None \<Rightarrow> 0 | Some r \<Rightarrow> r) in
        if current_rate \<ge> threshold tr then
          (if \<not> activated tr
           then (True, [trigger_activated current_rate (threshold tr)], tr\<lparr>activated := True\<rparr>)
           else (True, [], tr))
        else
          (if activated tr
           then (False, [trigger_deactivated (threshold tr)], tr\<lparr>activated := False\<rparr>)
           else (False, [], tr)))"

text \<open>A sequence of \<open>check\<close> calls on one trigger: the result and the signals of each call.\<close>

fun check_stream ::
  "MessageRateTrigger \<Rightarrow> (string, real) dict list \<Rightarrow> (bool \<times> trigger_signal list) list" where
  "check_stream tr [] = []"
| "check_stream tr (m # ms) =
     (case MessageRateTrigger_check tr m of
        (r, sigs, tr') \<Rightarrow> (r, sigs) # check_stream tr' ms)"

definition rate_metrics :: "real \<Rightarrow> (string, real) dict" where
  "rate_metrics r = [(''message_rate'', r)]"

definition is_activation :: "trigger_signal \<Rightarrow> bool" where
  "is_activation s = (case s of trigger_activated _ _ \<Rightarrow> True | trigger_deactivated _ \<Rightarrow> False)"

definition is_deactivation :: "trigger_signal \<Rightarrow> bool" where
  "is_deactivation s = (case s of trigger_activated _ _ \<Rightarrow> False | trigger_deactivated _ \<Rightarrow> True)"

section \<open>Text helpers\<close>






definition py_lower_char :: "char \<Rightarrow> char" where
  "py_lower_char c =
     (if 65 \<le> (of_char c :: nat) \<and> (of_char c :: nat) \<le> 90 then char_of ((of_char c :: nat) + 32) else c)"

definition py_lower :: "string \<Rightarrow> string" where
  "py_lower s = map py_lower_char s"

fun contains_str :: "string \<Rightarrow> string \<Rightarrow> bool" where
  "contains_str needle [] = (needle = [])"
| "contains_str needle (c # cs) = (prefix needle (c # cs) \<or> contains_str needle cs)"




section \<open>Network robot discovery (core/network_discovery.py)\<close>

record ROS2Robot =
  hostname :: string
  domain_id :: int
  nodes :: "string list"
  topics :: "string list"
  services :: "string list"
  last_seen :: real

text \<open>
  The discovery object, together with the one variable of the process environment it
  writes, \<open>ROS_DOMAIN_ID\<close> (\<open>None\<close> when it is not set).
\<close>

record NetworkRobotDiscovery =
  discovered_robots :: "(string, ROS2Robot) dict"
  current_domain :: int
  environ_ROS_DOMAIN_ID :: "string option"


subsection \<open>get_robot_sensors\<close>

definition sensor_category :: "string \<Rightarrow> string" where
  "sensor_category topic =
     (let topic_lower = py_lower topic in
      if contains_str ''camera'' topic_lower \<or> contains_str ''image'' topic_lower
         \<or> contains_str ''/rgb'' topic_lower then ''cameras''
      else if contains_str ''lidar'' topic_lower \<or> contains_str ''scan'' topic_lower
         \<or> contains_str ''pointcloud'' topic_lower \<or> contains_str ''laser'' topic_lower then ''lidars''
      else if contains_str ''imu'' topic_lower then ''imu''
      else if contains_str ''gps'' topic_lower \<or> contains_str ''navsat'' topic_lower then ''gps''
      else if contains_str ''odom'' topic_lower then ''odometry''
      else if contains_str ''joint_state'' topic_lower then ''joint_states''
      else if contains_str ''/tf'' topic \<or> contains_str ''transform'' topic_lower then ''tf''
      else ''other'')"

definition empty_sensors :: "(string, string list) dict" where
  "empty_sensors =
     [(''cameras'', []), (''lidars'', []), (''imu'', []), (''gps'', []), (''odometry'', []),
      (''joint_states'', []), (''tf'', []), (''other'', [])]"

text \<open>\<open>sensors[category].append(topic)\<close>\<close>

definition sensors_append :: "string \<Rightarrow> (string, string list) dict \<Rightarrow> (string, string list) dict" where
  "sensors_append topic sensors =
     (let k = sensor_category topic in
      AList.update k ((case map_of sensors k of None \<Rightarrow> [] | Some ts \<Rightarrow> ts) @ [topic]) sensors)"

definition get_robot_sensors :: "NetworkRobotDiscovery \<Rightarrow> string \<Rightarrow> (string, string list) dict" where
  "get_robot_sensors self host =
     (case map_of (discovered_robots self) host of
        None \<Rightarrow> []
      | Some robot \<Rightarrow>
          filter (\<lambda>(k, v). v \<noteq> []) (fold sensors_append (topics robot) empty_sensors))"

text \<open>
  The classification as the specification words it: every test, the one for \<open>/tf\<close>
  too, is a substring test on the lower-cased topic name.
\<close>

definition spec_sensor_category :: "string \<Rightarrow> string" where
  "spec_sensor_category topic =
     (let t = py_lower topic in
      if contains_str ''camera'' t \<or> contains_str ''image'' t \<or> contains_str ''/rgb'' t then ''cameras''
      else if contains_str ''lidar'' t \<or> contains_str ''scan'' t \<or> contains_str ''pointcloud'' t
         \<or> contains_str ''laser'' t then ''lidars''
      else if contains_str ''imu'' t then ''imu''
      else if contains_str ''gps'' t \<or> contains_str ''navsat'' t then ''gps''
      else if contains_str ''odom'' t then ''odometry''
      else if contains_str ''joint_state'' t then ''joint_states''
      else if contains_str ''/tf'' t \<or> contains_str ''transform'' t then ''tf''
      else ''other'')"

subsection \<open>scan_domains\<close>






section \<open>Metrics collector (core/metrics_collector.py)\<close>

text \<open>
  The values of the metrics dictionary are Python ints and floats. \<open>time.time()\<close>, the
  ROS2 manager and \<open>psutil\<close> are the environment: every call takes what they return as
  arguments, \<open>None\<close> standing for a call that raises where the code catches it.
\<close>

datatype num = NInt int | NFloat real

definition num_real :: "num \<Rightarrow> real" where
  "num_real v = (case v of NInt i \<Rightarrow> real_of_int i | NFloat r \<Rightarrow> r)"

datatype py_error = KeyError | AttributeError | TypeError | ValueError | OSError | ZeroDivisionError

record sdiskio =
  write_bytes :: int

record MetricsCollector =
  start_time :: "real option"
  last_update_time :: "real option"
  last_size :: real
  last_disk_io :: "sdiskio option"
  system_metrics_cache_timeout :: real
  system_metrics_cache :: "(string, num) dict option"
  system_metrics_cache_time :: real
  last_disk_check :: "real option"
  last_topic_check :: "real option"
  metrics :: "(string, num) dict"

text \<open>
  \<open>last_disk_check\<close> and \<open>last_topic_check\<close> are the attributes \<open>_last_disk_check\<close> and
  \<open>_last_topic_check\<close>, which do not exist (\<open>None\<close>) until the code first sets them.
\<close>

definition zero_metrics :: "(string, num) dict" where
  "zero_metrics =
     [(''duration'', NFloat 0),
      (''size_mb'', NFloat 0),
      (''write_speed_mb_s'', NFloat 0),
      (''message_count'', NInt 0),
      (''topic_count'', NInt 0),
      (''message_rate'', NFloat 0),
      (''disk_usage_percent'', NFloat 0),
      (''cpu_percent'', NFloat 0),
      (''memory_percent'', NFloat 0),
      (''disk_write_speed'', NFloat 0)]"

definition MetricsCollector_init :: MetricsCollector where
  "MetricsCollector_init =
     \<lparr>start_time = None, last_update_time = None, last_size = 0, last_disk_io = None,
      system_metrics_cache_timeout = 1, system_metrics_cache = None,
      system_metrics_cache_time = 0, last_disk_check = None, last_topic_check = None,
      metrics = zero_metrics\<rparr>"

definition MetricsCollector_reset :: "real \<Rightarrow> MetricsCollector \<Rightarrow> MetricsCollector" where
  "MetricsCollector_reset now self =
     self\<lparr>start_time := Some now, last_update_time := Some now, last_size := 0,
          last_disk_io := None, metrics := zero_metrics\<rparr>"

text \<open>Truth value of an \<open>Optional[float]\<close>: \<open>None\<close> and \<open>0.0\<close> are false.\<close>

definition float_truthy :: "real option \<Rightarrow> bool" where
  "float_truthy t = (case t of None \<Rightarrow> False | Some x \<Rightarrow> x \<noteq> 0)"

definition float_of :: "real option \<Rightarrow> real" where
  "float_of t = (case t of None \<Rightarrow> 0 | Some x \<Rightarrow> x)"

text \<open>\<open>int(x)\<close> of a float truncates towards zero.\<close>

definition py_int :: "real \<Rightarrow> int" where
  "py_int x = (if x \<ge> 0 then \<lfloor>x\<rfloor> else \<lceil>x\<rceil>)"

subsection \<open>update_system_metrics\<close>

record system_obs =
  sys_time :: real
  psutil_cpu_percent :: "real option"
  psutil_memory_percent :: "real option"
  psutil_disk_io_counters :: "sdiskio option option"

text \<open>
  \<open>psutil_disk_io_counters\<close>: \<open>None\<close> when the call raises, \<open>Some None\<close> when it returns
  \<open>None\<close>, \<open>Some (Some io)\<close> for counters.
\<close>

definition disk_speed :: "real \<Rightarrow> sdiskio option \<Rightarrow> MetricsCollector \<Rightarrow> real" where
  "disk_speed current_time disk_io self =
     (case (disk_io, last_disk_io self) of
        (Some io, Some last_io) \<Rightarrow>
          if float_truthy (last_update_time self) then
            (let write_bytes_delta = write_bytes io - write_bytes last_io;
                 time_delta = current_time - float_of (last_update_time self)
             in if time_delta > 0 then (real_of_int write_bytes_delta / time_delta) / (1024 * 1024)
                else 0)
          else 0
      | _ \<Rightarrow> 0)"

definition update_system_metrics :: "system_obs \<Rightarrow> MetricsCollector \<Rightarrow> MetricsCollector" where
  "update_system_metrics obs self =
     (let current_time = sys_time obs in
      case (if current_time - system_metrics_cache_time self < system_metrics_cache_timeout self
            then system_metrics_cache self else None) of
        Some cache \<Rightarrow> self\<lparr>metrics := dict_update_all cache (metrics self)\<rparr>
      | None \<Rightarrow>
         (let cpu_percent = (case psutil_cpu_percent obs of Some p \<Rightarrow> p | None \<Rightarrow> 0);
              memory_percent = (case psutil_memory_percent obs of Some p \<Rightarrow> p | None \<Rightarrow> 0);
              last_check = (case last_disk_check self of None \<Rightarrow> 0 | Some t \<Rightarrow> t);
              self1 = self\<lparr>last_disk_check := Some last_check\<rparr>;
              (disk_write_speed, self2) =
                (if current_time - last_check > system_metrics_cache_timeout self * 2 then
                   (case psutil_disk_io_counters obs of
                      None \<Rightarrow> (NFloat 0, self1)
                    | Some disk_io \<Rightarrow>
                        (NFloat (disk_speed current_time disk_io self1),
                         self1\<lparr>last_disk_io := disk_io, last_disk_check := Some current_time\<rparr>))
                 else
                   ((case map_of (metrics self1) ''disk_write_speed'' of
                       None \<Rightarrow> NFloat 0 | Some v \<Rightarrow> v), self1));
              m1 = AList.update ''cpu_percent'' (NFloat cpu_percent) (metrics self2);
              m2 = AList.update ''memory_percent'' (NFloat memory_percent) m1;
              m3 = AList.update ''disk_write_speed'' disk_write_speed m2
          in self2\<lparr>metrics := m3,
                   system_metrics_cache :=
                     Some [(''cpu_percent'', NFloat cpu_percent),
                           (''memory_percent'', NFloat memory_percent),
                           (''disk_write_speed'', disk_write_speed)],
                   system_metrics_cache_time := current_time\<rparr>))"

subsection \<open>update\<close>

text \<open>
  What the ROS2 manager and the file system return during one \<open>update\<close>:
  \<open>get_current_bag_path()\<close>; \<open>os.path.exists\<close> of it; the files \<open>os.walk\<close> finds, each
  with its \<open>os.path.getsize\<close> (\<open>None\<close> when that raises); the length of
  \<open>get_topics_info()\<close>; \<open>get_bag_info(bag_path)\<close>; \<open>get_disk_usage()\<close>.
\<close>

record facade_obs =
  current_bag_path :: "string option"
  bag_path_exists :: bool
  walked_file_sizes :: "int option list"
  topics_info_len :: "nat option"
  bag_info :: "(string, num) dict option"
  disk_usage :: "real option"

definition bag_present :: "facade_obs \<Rightarrow> bool" where
  "bag_present fo =
     ((case current_bag_path fo of None \<Rightarrow> False | Some p \<Rightarrow> p \<noteq> []) \<and> bag_path_exists fo)"

definition total_size :: "int option list \<Rightarrow> int" where
  "total_size sizes = fold (\<lambda>s current_size. case s of Some n \<Rightarrow> current_size + n | None \<Rightarrow> current_size) sizes 0"

text \<open>The block of \<open>update\<close> under \<open>if bag_path and os.path.exists(bag_path)\<close>.\<close>

definition update_bag_metrics ::
  "real \<Rightarrow> facade_obs \<Rightarrow> MetricsCollector \<Rightarrow> py_error + MetricsCollector" where
  "update_bag_metrics current_time fo self =
     (let current_size = total_size (walked_file_sizes fo);
          current_size_mb = real_of_int current_size / (1024 * 1024);
          m1 = AList.update ''size_mb'' (NFloat current_size_mb) (metrics self);
          m2 = (if float_truthy (last_update_time self) \<and> last_update_time self \<noteq> start_time self
                then (let time_delta = current_time - float_of (last_update_time self) in
                      if time_delta > 0
                      then (let size_delta_mb = current_size_mb - last_size self in
                            AList.update ''write_speed_mb_s'' (NFloat (size_delta_mb / time_delta)) m1)
                      else m1)
                else m1);
          m3 = (case topics_info_len fo of
                  Some n \<Rightarrow> AList.update ''topic_count'' (NInt (int n)) m2
                | None \<Rightarrow>
                   (case bag_info fo of
                      Some info \<Rightarrow>
                        AList.update ''topic_count''
                          (case map_of info ''topic_count'' of None \<Rightarrow> NInt 0 | Some v \<Rightarrow> v) m2
                    | None \<Rightarrow> m2));
          avg_msg_size_kb = 1;
          message_count = py_int (current_size_mb * 1024 / avg_msg_size_kb);
          m4 = AList.update ''message_count'' (NInt message_count) m3
      in case map_of m4 ''duration'' of
           None \<Rightarrow> Inl KeyError
         | Some duration \<Rightarrow>
            (let m5 = (if num_real duration > 0
                       then AList.update ''message_rate''
                              (NFloat (real_of_int message_count / num_real duration)) m4
                       else m4)
             in Inr (self\<lparr>metrics := m5, last_size := current_size_mb,
                          last_update_time := Some current_time\<rparr>)))"

definition MetricsCollector_update ::
  "real \<Rightarrow> facade_obs \<Rightarrow> system_obs \<Rightarrow> MetricsCollector \<Rightarrow> py_error + MetricsCollector" where
  "MetricsCollector_update current_time fo so self =
     (let self1 = (if float_truthy (start_time self)
                   then self\<lparr>metrics := AList.update ''duration''
                                (NFloat (current_time - float_of (start_time self))) (metrics self)\<rparr>
                   else self)
      in case (if bag_present fo then update_bag_metrics current_time fo self1 else Inr self1) of
           Inl e \<Rightarrow> Inl e
         | Inr self2 \<Rightarrow>
            (let self3 = (case disk_usage fo of
                            Some u \<Rightarrow> self2\<lparr>metrics := AList.update ''disk_usage_percent'' (NFloat u) (metrics self2)\<rparr>
                          | None \<Rightarrow> self2)
             in Inr (update_system_metrics so self3)))"

subsection \<open>get_metrics and get_live_metrics\<close>

definition get_metrics :: "system_obs \<Rightarrow> MetricsCollector \<Rightarrow> (string, num) dict \<times> MetricsCollector" where
  "get_metrics so self = (let self' = update_system_metrics so self in (metrics self', self'))"

text \<open>
  The manager as \<open>get_live_metrics\<close> sees it: \<open>None\<close> when no manager is passed, else the
  two later clock readings and the length of \<open>get_topics_info()\<close> (\<open>None\<close> when it raises).
\<close>

record live_obs =
  check_time :: real
  topics_len :: "nat option"
  after_time :: real

definition get_live_metrics ::
  "system_obs \<Rightarrow> live_obs option \<Rightarrow> MetricsCollector \<Rightarrow> (string, num) dict \<times> MetricsCollector" where
  "get_live_metrics so ros2_manager self =
     (let self1 = update_system_metrics so self;
          self2 =
            (case ros2_manager of
               None \<Rightarrow> self1
             | Some lo \<Rightarrow>
                (let last_check = (case last_topic_check self1 of None \<Rightarrow> 0 | Some t \<Rightarrow> t);
                     self1a = self1\<lparr>last_topic_check := Some last_check\<rparr>;
                     time_since_check = check_time lo - last_check
                 in if time_since_check > 3 then
                      (case topics_len lo of
                         Some n \<Rightarrow>
                           self1a\<lparr>metrics := AList.update ''topic_count'' (NInt (int n)) (metrics self1a),
                                   last_topic_check := Some (after_time lo)\<rparr>
                       | None \<Rightarrow> self1a)
                    else self1a))
      in (metrics self2, self2))"

text \<open>
  The collectors a program can hold: the one \<open>__init__\<close> builds, and what the methods make
  of it, with any arguments; \<open>system_metrics_cache_timeout\<close> is a public attribute that
  the performance mode assigns.
\<close>

inductive reachable :: "MetricsCollector \<Rightarrow> bool" where
  r_init: "reachable MetricsCollector_init"
| r_reset: "reachable c \<Longrightarrow> reachable (MetricsCollector_reset now c)"
| r_update: "reachable c \<Longrightarrow> MetricsCollector_update t fo so c = Inr c' \<Longrightarrow> reachable c'"
| r_system: "reachable c \<Longrightarrow> reachable (update_system_metrics so c)"
| r_get: "reachable c \<Longrightarrow> reachable (snd (get_metrics so c))"
| r_live: "reachable c \<Longrightarrow> reachable (snd (get_live_metrics so mgr c))"
| r_timeout: "reachable c \<Longrightarrow> reachable (c\<lparr>system_metrics_cache_timeout := x\<rparr>)"

text \<open>
  The ten keys of the snapshot, the three keys \<open>update_system_metrics\<close> caches, and the
  shape every collector keeps: the snapshot has exactly the ten keys, and a cache, when
  there is one, holds exactly the three system keys.
\<close>

definition snapshot_keys :: "string list" where
  "snapshot_keys =
     [''duration'', ''size_mb'', ''write_speed_mb_s'', ''message_count'', ''topic_count'',
      ''message_rate'', ''disk_usage_percent'', ''cpu_percent'', ''memory_percent'',
      ''disk_write_speed'']"

definition system_keys :: "string list" where
  "system_keys = [''cpu_percent'', ''memory_percent'', ''disk_write_speed'']"

definition snapshot_shape :: "MetricsCollector \<Rightarrow> bool" where
  "snapshot_shape self =
     (dict_keys (metrics self) = snapshot_keys \<and>
      (\<forall>cache. system_metrics_cache self = Some cache \<longrightarrow> dict_keys cache = system_keys))"





section \<open>Recording isolation harness (test_recording_isolation.py)\<close>

text \<open>
  The harness talks to the ROS2 manager and to \<open>psutil\<close>; what they answer during one run
  is the environment: whether \<open>start_recording\<close> succeeded, the two readings of
  \<open>get_recording_health()\<close> (\<open>None\<close> for a reading that is empty or \<open>None\<close>), and what
  \<open>psutil.Process(pid)\<close> finds for a process id (\<open>None\<close> when it raises
  \<open>NoSuchProcess\<close>). For a process that is running the harness also prints its name and
  status; that can raise \<open>NoSuchProcess\<close>, which the harness catches, or another error,
  which it does not.
\<close>

record recording_health =
  pid :: int
  elapsed_seconds :: real
  cpu_percent :: real
  memory_mb :: real
  health_checks :: int
  status :: string
  warnings :: "string list"











section \<open>Upload server (upload_server.py)\<close>

subsection \<open>Paths and the file system\<close>













subsection \<open>Sessions, requests and responses\<close>










subsection \<open>POST /upload/init\<close>



subsection \<open>POST /upload/chunk\<close>




subsection \<open>POST /upload/finalize\<close>









subsection \<open>The upload scenario\<close>






subsection \<open>A small server state\<close>









section \<open>Performance mode classification\<close>

text \<open>
  Claim C4. The auto-detected mode is HIGH exactly when memory_gb >= 16 and cpu_count >= 8;
  it is LOW exactly when that fails and memory_gb < 8 or cpu_count < 4; it is BALANCED in
  every other case (and never CUSTOM). 16 GB with 8 cores is HIGH, 4 GB with 2 cores is
  LOW, 12 GB with 6 cores is BALANCED.
\<close>

theorem auto_detect_mode_classification:
  "(auto_detect_mode si = HIGH) = (memory_gb si \<ge> 16 \<and> cpu_count si \<ge> 8)
   \<and> (auto_detect_mode si = LOW) =
       ((memory_gb si < 16 \<or> cpu_count si < 8) \<and> (memory_gb si < 8 \<or> cpu_count si < 4))
   \<and> (auto_detect_mode si = BALANCED) =
       ((memory_gb si < 16 \<or> cpu_count si < 8) \<and> 8 \<le> memory_gb si \<and> 4 \<le> cpu_count si)
   \<and> auto_detect_mode si \<noteq> CUSTOM
   \<and> auto_detect_mode (si\<lparr>memory_gb := 16, cpu_count := 8\<rparr>) = HIGH
   \<and> auto_detect_mode (si\<lparr>memory_gb := 4, cpu_count := 2\<rparr>) = LOW
   \<and> auto_detect_mode (si\<lparr>memory_gb := 12, cpu_count := 6\<rparr>) = BALANCED"
  by (auto simp: auto_detect_mode_def)

section \<open>Mode settings tables\<close>

lemma spec_mode_settings_HIGH: "spec_mode_settings HIGH = high_settings"
  by (simp add: spec_mode_settings_def spec_settings_table_def high_settings_def)

lemma spec_mode_settings_BALANCED: "spec_mode_settings BALANCED = balanced_settings"
  by (simp add: spec_mode_settings_def spec_settings_table_def balanced_settings_def)

lemma spec_mode_settings_LOW: "spec_mode_settings LOW = low_settings"
  by (simp add: spec_mode_settings_def spec_settings_table_def low_settings_def)

lemma spec_keys_16:
  "length (map fst spec_settings_table) = 16 \<and> distinct (map fst spec_settings_table)"
  by (simp add: spec_settings_table_def)

lemma spec_mode_settings_keys: "dict_keys (spec_mode_settings m) = map fst spec_settings_table"
  by (cases m) (simp_all add: dict_keys_def spec_mode_settings_def spec_settings_table_def)

text \<open>
  Claim C5. For HIGH, BALANCED and LOW, asked for by name or as the current mode,
  get_mode_settings returns the column of the section 4.2 table for that mode: its keys
  are the 16 distinct keys of the table, in the table's order, each with the table's
  literal value.
\<close>

theorem get_mode_settings_table:
  "get_mode_settings mgr (Some HIGH) = spec_mode_settings HIGH
   \<and> get_mode_settings mgr (Some BALANCED) = spec_mode_settings BALANCED
   \<and> get_mode_settings mgr (Some LOW) = spec_mode_settings LOW
   \<and> get_mode_settings (mgr\<lparr>current_mode := HIGH\<rparr>) None = spec_mode_settings HIGH
   \<and> get_mode_settings (mgr\<lparr>current_mode := BALANCED\<rparr>) None = spec_mode_settings BALANCED
   \<and> get_mode_settings (mgr\<lparr>current_mode := LOW\<rparr>) None = spec_mode_settings LOW
   \<and> dict_keys (get_mode_settings mgr (Some HIGH)) = map fst spec_settings_table
   \<and> dict_keys (get_mode_settings mgr (Some BALANCED)) = map fst spec_settings_table
   \<and> dict_keys (get_mode_settings mgr (Some LOW)) = map fst spec_settings_table
   \<and> length (map fst spec_settings_table) = 16
   \<and> distinct (map fst spec_settings_table)
   \<and> map_of (get_mode_settings mgr (Some HIGH)) ''max_threads'' = Some (PInt 6)
   \<and> map_of (get_mode_settings mgr (Some HIGH)) ''chart_auto_pause'' = Some (PBool False)
   \<and> map_of (get_mode_settings mgr (Some LOW)) ''enable_profiler'' = Some (PBool False)
   \<and> map_of (get_mode_settings mgr (Some LOW)) ''process_priority'' = Some (PStr ''below_normal'')"
proof -
  have gs: "get_mode_settings mgr (Some HIGH) = high_settings"
    "get_mode_settings mgr (Some BALANCED) = balanced_settings"
    "get_mode_settings mgr (Some LOW) = low_settings"
    "get_mode_settings (mgr\<lparr>current_mode := HIGH\<rparr>) None = high_settings"
    "get_mode_settings (mgr\<lparr>current_mode := BALANCED\<rparr>) None = balanced_settings"
    "get_mode_settings (mgr\<lparr>current_mode := LOW\<rparr>) None = low_settings"
    by (simp_all add: get_mode_settings_def)
  have ks: "dict_keys high_settings = map fst spec_settings_table"
    "dict_keys balanced_settings = map fst spec_settings_table"
    "dict_keys low_settings = map fst spec_settings_table"
    using spec_mode_settings_keys [of HIGH] spec_mode_settings_keys [of BALANCED]
      spec_mode_settings_keys [of LOW]
    by (simp_all add: spec_mode_settings_HIGH spec_mode_settings_BALANCED spec_mode_settings_LOW)
  have vs: "map_of high_settings ''max_threads'' = Some (PInt 6)"
    "map_of high_settings ''chart_auto_pause'' = Some (PBool False)"
    "map_of low_settings ''enable_profiler'' = Some (PBool False)"
    "map_of low_settings ''process_priority'' = Some (PStr ''below_normal'')"
    by (simp_all add: high_settings_def low_settings_def)
  show ?thesis
    using spec_keys_16
    by (simp add: gs ks vs spec_mode_settings_HIGH spec_mode_settings_BALANCED
        spec_mode_settings_LOW)
qed

section \<open>Message rate trigger: edge detection\<close>

lemma check_rate_metrics:
  "enabled tr \<Longrightarrow>
   MessageRateTrigger_check tr (rate_metrics r) =
     (r \<ge> threshold tr,
      (if r \<ge> threshold tr \<and> \<not> activated tr then [trigger_activated r (threshold tr)]
       else if r < threshold tr \<and> activated tr then [trigger_deactivated (threshold tr)]
       else []),
      tr\<lparr>activated := (r \<ge> threshold tr)\<rparr>)"
  by (auto simp: MessageRateTrigger_check_def rate_metrics_def Let_def)

lemma check_stream_nth:
  "enabled tr \<Longrightarrow> i < length rs \<Longrightarrow>
   check_stream tr (map rate_metrics rs) ! i =
     (rs ! i \<ge> threshold tr,
      (if rs ! i \<ge> threshold tr \<and> \<not> (if i = 0 then activated tr else rs ! (i - 1) \<ge> threshold tr)
       then [trigger_activated (rs ! i) (threshold tr)]
       else if rs ! i < threshold tr \<and> (if i = 0 then activated tr else rs ! (i - 1) \<ge> threshold tr)
       then [trigger_deactivated (threshold tr)]
       else []))"
proof (induction rs arbitrary: tr i)
  case Nil
  then show ?case by simp
next
  case (Cons r rs)
  show ?case
  proof (cases i)
    case 0
    then show ?thesis using Cons.prems by (simp add: check_rate_metrics)
  next
    case (Suc j)
    let ?tr' = "tr\<lparr>activated := (r \<ge> threshold tr)\<rparr>"
    have en: "enabled ?tr'" using Cons.prems by simp
    have j: "j < length rs" using Cons.prems Suc by simp
    show ?thesis
      using Cons.IH [OF en j] Cons.prems Suc
      by (cases j) (simp_all add: check_rate_metrics)
  qed
qed

lemma check_stream_length: "length (check_stream tr ms) = length ms"
  by (induction ms arbitrary: tr) (auto split: prod.splits)

text \<open>
  Claim C6. A new, enabled MessageRateTrigger with threshold t is fed any stream of rates.
  The i-th check returns true exactly when the i-th rate is >= t. It emits an activation
  exactly when that rate is >= t and the rate before it was below t (the first call counts
  as coming from below: a new trigger is not activated), and a deactivation exactly when
  the rate is below t and the rate before it was >= t; no call emits more than one signal.
  The stream [0, 6, 6, 2] with t = 5 gives one activation (second call) and one
  deactivation (fourth call) and nothing else.
\<close>

theorem message_rate_edge_detection:
  fixes t :: real and rs :: "real list" and i :: nat
  assumes "i < length rs"
  defines "outs \<equiv> check_stream (MessageRateTrigger_init t) (map rate_metrics rs)"
  shows "length outs = length rs
    \<and> fst (outs ! i) = (rs ! i \<ge> t)
    \<and> ((\<exists>s. s \<in> set (snd (outs ! i)) \<and> is_activation s)
         = (rs ! i \<ge> t \<and> (i = 0 \<or> rs ! (i - 1) < t)))
    \<and> ((\<exists>s. s \<in> set (snd (outs ! i)) \<and> is_deactivation s)
         = (rs ! i < t \<and> 0 < i \<and> rs ! (i - 1) \<ge> t))
    \<and> length (snd (outs ! i)) \<le> 1
    \<and> check_stream (MessageRateTrigger_init 5) (map rate_metrics [0, 6, 6, 2])
        = [(False, []), (True, [trigger_activated 6 5]), (True, []), (False, [trigger_deactivated 5])]"
proof -
  have en: "enabled (MessageRateTrigger_init t)" "threshold (MessageRateTrigger_init t) = t"
    "\<not> activated (MessageRateTrigger_init t)"
    by (simp_all add: MessageRateTrigger_init_def)
  have nth: "outs ! i =
     (rs ! i \<ge> t,
      (if rs ! i \<ge> t \<and> (i = 0 \<or> rs ! (i - 1) < t) then [trigger_activated (rs ! i) t]
       else if rs ! i < t \<and> 0 < i \<and> rs ! (i - 1) \<ge> t then [trigger_deactivated t]
       else []))"
    unfolding outs_def using check_stream_nth [OF en(1) assms(1)] en(2,3)
    by (auto simp: not_le)
  have ex: "check_stream (MessageRateTrigger_init 5) (map rate_metrics [0, 6, 6, 2])
        = [(False, []), (True, [trigger_activated 6 5]), (True, []), (False, [trigger_deactivated 5])]"
    by (simp add: MessageRateTrigger_init_def check_rate_metrics)
  have len: "length outs = length rs"
    by (simp add: outs_def check_stream_length)
  have act: "(\<exists>s. s \<in> set (snd (outs ! i)) \<and> is_activation s)
         = (rs ! i \<ge> t \<and> (i = 0 \<or> rs ! (i - 1) < t))"
    by (auto simp: nth is_activation_def)
  have deact: "(\<exists>s. s \<in> set (snd (outs ! i)) \<and> is_deactivation s)
         = (rs ! i < t \<and> 0 < i \<and> rs ! (i - 1) \<ge> t)"
    by (auto simp: nth is_deactivation_def)
  have one: "length (snd (outs ! i)) \<le> 1" "fst (outs ! i) = (rs ! i \<ge> t)"
    by (simp_all add: nth)
  from len act deact one ex show ?thesis by blast
qed

theorem message_rate_edge_detection_witness:
  "(1::nat) < length [0, 6, 6, 2::real]
   \<and> fst (check_stream (MessageRateTrigger_init 5) (map rate_metrics [0, 6, 6, 2]) ! 1)
   \<and> (\<exists>s. s \<in> set (snd (check_stream (MessageRateTrigger_init 5)
          (map rate_metrics [0, 6, 6, 2]) ! 1)) \<and> is_activation s)"
proof -
  have h: "(1::nat) < length [0, 6, 6, 2::real]" by simp
  have e: "[0, 6, 6, 2::real] ! 1 \<ge> 5" "[0, 6, 6, 2::real] ! (1 - 1) < 5" by simp_all
  show ?thesis
    using message_rate_edge_detection [OF h, of 5] h e by blast
qed

section \<open>Sensor classification\<close>

lemma sensor_category_examples:
  "map sensor_category [''/front/camera/image_raw'', ''/imu/data'', ''/scan'', ''/tf'']
     = [''cameras'', ''imu'', ''lidars'', ''tf'']"
  by code_simp

text \<open>
  The topics of the specification's example classify as the specification says: the four
  categories cameras, lidars, imu and tf, no "other" and no empty category.
\<close>

lemma get_robot_sensors_example:
  "get_robot_sensors
     \<lparr>discovered_robots =
        [(''robot1'', \<lparr>hostname = ''robot1'', domain_id = 0, nodes = [],
           topics = [''/front/camera/image_raw'', ''/imu/data'', ''/scan'', ''/tf''],
           services = [], last_seen = 0\<rparr>)],
      current_domain = 0, environ_ROS_DOMAIN_ID = None\<rparr> ''robot1''
     = [(''cameras'', [''/front/camera/image_raw'']), (''lidars'', [''/scan'']),
        (''imu'', [''/imu/data'']), (''tf'', [''/tf''])]"
  by code_simp

text \<open>
  The code and the specification's wording agree on every topic whose name holds \<open>/tf\<close>
  as written exactly when its lower-cased name does.
\<close>

lemma sensor_category_agrees:
  "contains_str ''/tf'' topic = contains_str ''/tf'' (py_lower topic)
   \<Longrightarrow> sensor_category topic = spec_sensor_category topic"
  by (simp add: sensor_category_def spec_sensor_category_def Let_def)

text \<open>
  Claim C8. Every topic is classified by substring tests on its lower-cased name, \<open>/tf\<close>
  included. The code tests \<open>/tf\<close> on the name as written, so the topic \<open>/TF\<close>, whose
  lower-cased name holds \<open>/tf\<close>, is put under "other" and not under "tf".
\<close>

theorem get_robot_sensors_uppercase_tf:
  "get_robot_sensors
     \<lparr>discovered_robots =
        [(''robot1'', \<lparr>hostname = ''robot1'', domain_id = 0, nodes = [], topics = [''/TF''],
           services = [], last_seen = 0\<rparr>)],
      current_domain = 0, environ_ROS_DOMAIN_ID = None\<rparr> ''robot1''
     = [(''other'', [''/TF''])]
   \<and> spec_sensor_category ''/TF'' = ''tf''"
  by code_simp

section \<open>Domain scan\<close>




section \<open>Metrics snapshot: shape\<close>

lemma keys_update_in:
  "k \<in> set (dict_keys d) \<Longrightarrow> dict_keys (AList.update k v d) = dict_keys d"
  by (simp add: dict_keys_def update_keys)

lemma keys_update_all:
  "set (dict_keys other) \<subseteq> set (dict_keys d) \<Longrightarrow> dict_keys (dict_update_all other d) = dict_keys d"
  unfolding dict_update_all_def
proof (induction other arbitrary: d)
  case Nil
  then show ?case by simp
next
  case (Cons kv other)
  obtain k v where kv: "kv = (k, v)" by (cases kv)
  have k: "k \<in> set (dict_keys d)" using Cons.prems by (simp add: kv dict_keys_def)
  have "set (dict_keys other) \<subseteq> set (dict_keys (AList.update k v d))"
    using Cons.prems by (simp add: keys_update_in [OF k]) (simp add: dict_keys_def)
  from Cons.IH [OF this] show ?case by (simp add: kv keys_update_in [OF k])
qed


lemma snapshot_key_mem:
  "''duration'' \<in> set snapshot_keys" "''size_mb'' \<in> set snapshot_keys"
  "''write_speed_mb_s'' \<in> set snapshot_keys" "''message_count'' \<in> set snapshot_keys"
  "''topic_count'' \<in> set snapshot_keys" "''message_rate'' \<in> set snapshot_keys"
  "''disk_usage_percent'' \<in> set snapshot_keys" "''cpu_percent'' \<in> set snapshot_keys"
  "''memory_percent'' \<in> set snapshot_keys" "''disk_write_speed'' \<in> set snapshot_keys"
  by (simp_all add: snapshot_keys_def)

lemma keys_upd [simp]:
  "dict_keys d = snapshot_keys \<Longrightarrow> k \<in> set snapshot_keys \<Longrightarrow>
   dict_keys (AList.update k v d) = snapshot_keys"
  using keys_update_in [of k d v] by simp

lemma zero_metrics_keys: "dict_keys zero_metrics = snapshot_keys"
  by (simp add: zero_metrics_def snapshot_keys_def dict_keys_def)

lemma shape_init: "snapshot_shape MetricsCollector_init"
  by (simp add: snapshot_shape_def MetricsCollector_init_def zero_metrics_keys)

lemma shape_reset: "snapshot_shape c \<Longrightarrow> snapshot_shape (MetricsCollector_reset now c)"
  by (simp add: snapshot_shape_def MetricsCollector_reset_def zero_metrics_keys)

lemma shape_timeout: "snapshot_shape c \<Longrightarrow> snapshot_shape (c\<lparr>system_metrics_cache_timeout := x\<rparr>)"
  by (simp add: snapshot_shape_def)

lemma shape_system:
  assumes "snapshot_shape c"
  shows "snapshot_shape (update_system_metrics so c)"
proof -
  have k: "dict_keys (metrics c) = snapshot_keys" using assms by (simp add: snapshot_shape_def)
  have sub: "set system_keys \<subseteq> set snapshot_keys"
    by (simp add: system_keys_def snapshot_keys_def)
  show ?thesis
  proof (cases "if sys_time so - system_metrics_cache_time c < system_metrics_cache_timeout c
            then system_metrics_cache c else None")
    case (Some cache)
    then have c: "system_metrics_cache c = Some cache" by (simp split: if_splits)
    then have ck: "dict_keys cache = system_keys" using assms by (simp add: snapshot_shape_def)
    have "dict_keys (dict_update_all cache (metrics c)) = snapshot_keys"
      using keys_update_all [of cache "metrics c"] sub by (simp add: ck k)
    then show ?thesis
      using Some c ck by (simp add: update_system_metrics_def snapshot_shape_def Let_def)
  next
    case None
    then show ?thesis
      using k
      by (simp add: update_system_metrics_def snapshot_shape_def Let_def snapshot_key_mem
          split: option.split prod.split)
        (simp add: dict_keys_def system_keys_def)
  qed
qed

lemma map_of_None_keys: "(map_of d k = None) = (k \<notin> set (dict_keys d))"
  by (simp add: dict_keys_def map_of_eq_None_iff)

lemma shape_bag:
  assumes "snapshot_shape c"
  shows "\<exists>c'. update_bag_metrics t fo c = Inr c' \<and> snapshot_shape c'"
proof -
  have k: "dict_keys (metrics c) = snapshot_keys" using assms by (simp add: snapshot_shape_def)
  have cache: "\<forall>cache. system_metrics_cache c = Some cache \<longrightarrow> dict_keys cache = system_keys"
    using assms by (simp add: snapshot_shape_def)
  show ?thesis
    unfolding update_bag_metrics_def Let_def snapshot_shape_def
    using k cache
    by (simp add: snapshot_key_mem map_of_None_keys split: option.split)
qed

lemma shape_update:
  assumes "snapshot_shape c"
  shows "\<exists>c'. MetricsCollector_update t fo so c = Inr c' \<and> snapshot_shape c'"
proof -
  let ?c1 = "if float_truthy (start_time c)
             then c\<lparr>metrics := AList.update ''duration''
                    (NFloat (t - float_of (start_time c))) (metrics c)\<rparr>
             else c"
  have s1: "snapshot_shape ?c1"
    using assms by (simp add: snapshot_shape_def snapshot_key_mem)
  obtain c2 where c2: "(if bag_present fo then update_bag_metrics t fo ?c1 else Inr ?c1) = Inr c2"
    and s2: "snapshot_shape c2"
    using shape_bag [OF s1, of t fo] s1 by (cases "bag_present fo") auto
  let ?c3 = "case disk_usage fo of
               Some u \<Rightarrow> c2\<lparr>metrics := AList.update ''disk_usage_percent'' (NFloat u) (metrics c2)\<rparr>
             | None \<Rightarrow> c2"
  have s3: "snapshot_shape ?c3"
    using s2 by (simp add: snapshot_shape_def snapshot_key_mem split: option.split)
  have "MetricsCollector_update t fo so c = Inr (update_system_metrics so ?c3)"
    using c2 by (simp add: MetricsCollector_update_def Let_def)
  then show ?thesis using shape_system [OF s3] by simp
qed

lemma shape_get: "snapshot_shape c \<Longrightarrow> snapshot_shape (snd (get_metrics so c))"
  by (simp add: get_metrics_def Let_def shape_system)

lemma shape_live:
  assumes "snapshot_shape c"
  shows "snapshot_shape (snd (get_live_metrics so mgr c))"
proof -
  have "snapshot_shape (update_system_metrics so c)" by (rule shape_system [OF assms])
  then show ?thesis
    by (simp add: get_live_metrics_def Let_def snapshot_shape_def snapshot_key_mem
        split: option.split)
qed

lemma reachable_shape: "reachable c \<Longrightarrow> snapshot_shape c"
proof (induction rule: reachable.induct)
  case r_init
  show ?case by (rule shape_init)
next
  case (r_reset c now)
  then show ?case by (simp add: shape_reset)
next
  case (r_update c t fo so c')
  then show ?case using shape_update [of c t fo so] by auto
next
  case (r_system c so)
  then show ?case by (simp add: shape_system)
next
  case (r_get c so)
  then show ?case by (simp add: shape_get)
next
  case (r_live c so mgr)
  then show ?case by (simp add: shape_live)
next
  case (r_timeout c x)
  then show ?case by (simp add: shape_timeout)
qed

text \<open>
  Claim C10. In every collector a program can hold (built by the constructor and changed
  only by reset, update, update_system_metrics, get_metrics, get_live_metrics and the
  assignment of the cache timeout), the metrics snapshot has exactly the ten keys
  duration, size_mb, write_speed_mb_s, message_count, topic_count, message_rate,
  disk_usage_percent, cpu_percent, memory_percent, disk_write_speed, in that order; each
  operation leaves it so, update never fails for a missing key, and the copies that
  get_metrics and get_live_metrics return have exactly these ten keys.
\<close>

theorem snapshot_keys_invariant:
  assumes "reachable c"
  shows "dict_keys (metrics c) = snapshot_keys
    \<and> dict_keys (metrics MetricsCollector_init) = snapshot_keys
    \<and> dict_keys (metrics (MetricsCollector_reset now c)) = snapshot_keys
    \<and> (\<exists>c'. MetricsCollector_update t fo so c = Inr c' \<and> dict_keys (metrics c') = snapshot_keys)
    \<and> dict_keys (metrics (update_system_metrics so c)) = snapshot_keys
    \<and> dict_keys (fst (get_metrics so c)) = snapshot_keys
    \<and> dict_keys (metrics (snd (get_metrics so c))) = snapshot_keys
    \<and> dict_keys (fst (get_live_metrics so mgr c)) = snapshot_keys
    \<and> dict_keys (metrics (snd (get_live_metrics so mgr c))) = snapshot_keys
    \<and> length snapshot_keys = 10 \<and> distinct snapshot_keys"
proof -
  have s: "snapshot_shape c" by (rule reachable_shape [OF assms])
  have a: "dict_keys (metrics c) = snapshot_keys" using s by (simp add: snapshot_shape_def)
  have b: "dict_keys (metrics MetricsCollector_init) = snapshot_keys"
    using shape_init by (simp add: snapshot_shape_def)
  have c: "dict_keys (metrics (MetricsCollector_reset now c)) = snapshot_keys"
    using shape_reset [OF s] by (simp add: snapshot_shape_def)
  have d: "\<exists>c'. MetricsCollector_update t fo so c = Inr c' \<and> dict_keys (metrics c') = snapshot_keys"
    using shape_update [OF s, of t fo so] by (auto simp: snapshot_shape_def)
  have e: "dict_keys (metrics (update_system_metrics so c)) = snapshot_keys"
    using shape_system [OF s] by (simp add: snapshot_shape_def)
  have f: "dict_keys (metrics (snd (get_metrics so c))) = snapshot_keys"
    using shape_get [OF s] by (simp add: snapshot_shape_def)
  have f': "fst (get_metrics so c) = metrics (snd (get_metrics so c))"
    by (simp add: get_metrics_def Let_def)
  have g: "dict_keys (metrics (snd (get_live_metrics so mgr c))) = snapshot_keys"
    using shape_live [OF s] by (simp add: snapshot_shape_def)
  have g': "fst (get_live_metrics so mgr c) = metrics (snd (get_live_metrics so mgr c))"
    by (simp add: get_live_metrics_def Let_def)
  have h: "length snapshot_keys = 10 \<and> distinct snapshot_keys"
    by (simp add: snapshot_keys_def)
  from a b c d e f g h show ?thesis by (simp add: f' g')
qed

theorem snapshot_keys_invariant_witness:
  "reachable (MetricsCollector_reset 100 MetricsCollector_init)
   \<and> dict_keys (metrics (MetricsCollector_reset 100 MetricsCollector_init)) = snapshot_keys
   \<and> dict_keys (fst (get_metrics
         \<lparr>sys_time = 101, psutil_cpu_percent = Some 12, psutil_memory_percent = None,
          psutil_disk_io_counters = Some None\<rparr>
         (MetricsCollector_reset 100 MetricsCollector_init))) = snapshot_keys"
proof -
  have r: "reachable (MetricsCollector_reset 100 MetricsCollector_init)"
    by (rule r_reset [OF r_init])
  show ?thesis
    using r snapshot_keys_invariant [OF r] by blast
qed

section \<open>Metrics accounting\<close>









section \<open>Recording isolation harness: what it checks\<close>



section \<open>Upload server: text and path facts\<close>

subsection \<open>Decimal text\<close>








subsection \<open>Paths\<close>







section \<open>Upload server: finalize failures\<close>

subsection \<open>Reassembly\<close>







section \<open>Upload server: round trip\<close>

subsection \<open>The paths of a session\<close>



subsection \<open>Receiving chunks\<close>




subsection \<open>Finalizing a complete session\<close>







end
